theory Spec2Isabelle
  imports Complex_Main
begin

section \<open>Microtonal sampler: values and numbers\<close>

text \<open>
  The embedding follows \<^verbatim>\<open>src/AUSampler.js\<close>. JavaScript numbers are modelled as
  reals: rounding to binary64, overflow to an infinity and the sign of zero are outside
  the model. The one non-number that the arithmetic of the source can produce from
  integers, \<^verbatim>\<open>NaN\<close>, is the value \<open>None\<close> of an option type.

  A note value is what the handlers pass around as \<^verbatim>\<open>midiNote\<close>: a number of the
  key tables, \<^verbatim>\<open>undefined\<close> (a property lookup that finds nothing) or \<^verbatim>\<open>null\<close>
  (the filler of \<^verbatim>\<open>BLACK_KEY_OFFSETS\<close>).
\<close>

datatype jsval = Undefined | Null | Num int

text \<open>\<^verbatim>\<open>ToNumber\<close>, as the subtraction \<^verbatim>\<open>midiNote - baseNote\<close> applies it.\<close>

fun toNumber :: "jsval \<Rightarrow> int option" where
  "toNumber Undefined = None"
| "toNumber Null = Some 0"
| "toNumber (Num n) = Some n"

text \<open>\<^verbatim>\<open>let baseNote = 60\<close>; the source never assigns it again.\<close>

definition baseNote :: int where
  "baseNote = 60"

text \<open>
  The operator \<^verbatim>\<open>%\<close> on integers: the result takes the sign of the dividend, and a zero
  divisor gives \<^verbatim>\<open>NaN\<close>.
\<close>

definition js_rem :: "int \<Rightarrow> int \<Rightarrow> int option" where
  "js_rem n m = (if m = 0 then None else Some (sgn n * (\<bar>n\<bar> mod \<bar>m\<bar>)))"

text \<open>\<^verbatim>\<open>function mod(n, m) { return ((n % m) + m) % m; }\<close>\<close>

definition mod_js :: "int \<Rightarrow> int \<Rightarrow> int option" where
  "mod_js n m = (case js_rem n m of None \<Rightarrow> None | Some r \<Rightarrow> js_rem (r + m) m)"

text \<open>\<^verbatim>\<open>Math.pow(2, y)\<close>; the source calls \<^verbatim>\<open>Math.pow\<close> with base 2 only.\<close>

definition pow2 :: "real \<Rightarrow> real" where
  "pow2 y = 2 powr y"

section \<open>Pitch resolution\<close>

text \<open>
  \<^verbatim>\<open>calculatePitchRatio(midiNote)\<close> reads the global \<^verbatim>\<open>scaleRatios\<close>, here its first
  argument. With an empty table the division and the remainder are by zero and the
  product is \<^verbatim>\<open>NaN\<close>; an index outside the table would read \<^verbatim>\<open>undefined\<close> and give
  \<^verbatim>\<open>NaN\<close> as well.
\<close>

definition calculatePitchRatio :: "real list \<Rightarrow> jsval \<Rightarrow> real option" where
  "calculatePitchRatio scaleRatios midiNote =
     (case toNumber midiNote of
        None \<Rightarrow> None
      | Some n \<Rightarrow>
          (let steps = n - baseNote;
               len = int (length scaleRatios)
           in case mod_js steps len of
                None \<Rightarrow> None
              | Some scaleIndex \<Rightarrow>
                  (let octaves = \<lfloor>real_of_int steps / real_of_int len\<rfloor>
                   in if 0 \<le> scaleIndex \<and> scaleIndex < len
                      then Some (scaleRatios ! nat scaleIndex * pow2 (real_of_int octaves))
                      else None)))"

text \<open>
  The resolver as the specification words it, for comparison with the code: the period
  is the table length minus one and the multiplier of a period is the last entry.
\<close>

definition spec_period :: "real list \<Rightarrow> int" where
  "spec_period ratios = int (length ratios) - 1"

definition spec_resolve :: "real list \<Rightarrow> int \<Rightarrow> int \<Rightarrow> real" where
  "spec_resolve ratios baseIndex noteIndex =
     (let steps = noteIndex - baseIndex;
          period = spec_period ratios;
          octaves = \<lfloor>real_of_int steps / real_of_int period\<rfloor>;
          scaleIndex = ((steps mod period) + period) mod period
      in ratios ! nat scaleIndex * (ratios ! nat period) powi octaves)"

section \<open>The default scale\<close>

text \<open>
  The loop \<^verbatim>\<open>for (let i = 1; i < 12; i++) scaleRatios.push(Math.pow(2, i/12))\<close> of
  \<^verbatim>\<open>initializeDefaultScale\<close>.
\<close>

function default_loop :: "nat \<Rightarrow> real list \<Rightarrow> real list" where
  "default_loop i rs =
     (if i < 12 then default_loop (i + 1) (rs @ [pow2 (real i / 12)]) else rs)"
  by pat_completeness auto
termination
  by (relation "measure (\<lambda>(i, rs). 12 - i)") auto

definition default_ratios :: "real list" where
  "default_ratios = default_loop 1 [1] @ [2]"

section \<open>Strings\<close>

text \<open>
  Strings are lists of code units below 256. The functions below are the string
  methods and the two global parsers that the loader calls, on such strings.
\<close>

definition is_space :: "char \<Rightarrow> bool" where
  "is_space c \<longleftrightarrow> (of_char c :: nat) \<in> {9, 10, 11, 12, 13, 32, 160}"

definition trim :: "string \<Rightarrow> string" where
  "trim s = rev (dropWhile is_space (rev (dropWhile is_space s)))"

definition startsWith :: "string \<Rightarrow> string \<Rightarrow> bool" where
  "startsWith s p \<longleftrightarrow> take (length p) s = p"

definition endsWith :: "string \<Rightarrow> string \<Rightarrow> bool" where
  "endsWith s p \<longleftrightarrow> length p \<le> length s \<and> drop (length s - length p) s = p"

definition includes_str :: "string \<Rightarrow> char \<Rightarrow> bool" where
  "includes_str s c \<longleftrightarrow> c \<in> set s"

text \<open>\<^verbatim>\<open>s.split(c)\<close> for a one-character separator: never an empty array.\<close>

fun split :: "char \<Rightarrow> string \<Rightarrow> string list" where
  "split c [] = [[]]"
| "split c (x # xs) =
     (if x = c then [] # split c xs
      else (case split c xs of [] \<Rightarrow> [[x]] | p # ps \<Rightarrow> (x # p) # ps))"

text \<open>\<^verbatim>\<open>s.toLowerCase()\<close> on code units below 256.\<close>

definition lower_char :: "char \<Rightarrow> char" where
  "lower_char c =
     (let n = (of_char c :: nat)
      in if (65 \<le> n \<and> n \<le> 90) \<or> (192 \<le> n \<and> n \<le> 222 \<and> n \<noteq> 215)
         then char_of (n + 32) else c)"

definition toLowerCase :: "string \<Rightarrow> string" where
  "toLowerCase s = map lower_char s"

definition is_digit :: "char \<Rightarrow> bool" where
  "is_digit c \<longleftrightarrow> 48 \<le> (of_char c :: nat) \<and> (of_char c :: nat) \<le> 57"

definition is_hex_digit :: "char \<Rightarrow> bool" where
  "is_hex_digit c \<longleftrightarrow>
     (let n = (of_char c :: nat)
      in (48 \<le> n \<and> n \<le> 57) \<or> (65 \<le> n \<and> n \<le> 70) \<or> (97 \<le> n \<and> n \<le> 102))"

definition digit_value :: "char \<Rightarrow> nat" where
  "digit_value c =
     (let n = (of_char c :: nat)
      in if n \<le> 57 then n - 48 else if n \<le> 70 then n - 55 else n - 87)"

definition digits_value :: "nat \<Rightarrow> string \<Rightarrow> nat" where
  "digits_value radix ds = foldl (\<lambda>a c. radix * a + digit_value c) 0 ds"

text \<open>An optional sign in front of a literal: whether it is a minus, and the rest.\<close>

fun take_sign :: "string \<Rightarrow> bool \<times> string" where
  "take_sign [] = (False, [])"
| "take_sign (c # r) =
     (if c = CHR ''-'' then (True, r) else if c = CHR ''+'' then (False, r) else (False, c # r))"

text \<open>
  \<^verbatim>\<open>parseInt(s)\<close> with no radix: leading white space, a sign, the prefix \<^verbatim>\<open>0x\<close> for
  base sixteen, then the longest run of digits; \<^verbatim>\<open>NaN\<close> when that run is empty.
\<close>

definition parseInt :: "string \<Rightarrow> int option" where
  "parseInt str =
     (let (neg, s) = take_sign (dropWhile is_space str);
          hex = (startsWith s ''0x'' \<or> startsWith s ''0X'');
          ds = (if hex then takeWhile is_hex_digit (drop 2 s) else takeWhile is_digit s);
          v = int (digits_value (if hex then 16 else 10) ds)
      in if ds = [] then None else Some (if neg then - v else v))"

text \<open>
  The exponent part of a decimal literal: \<^verbatim>\<open>e\<close> or \<^verbatim>\<open>E\<close>, a sign, and at least
  one digit; anything else is not part of the literal and counts as exponent 0.
\<close>

definition exponent_part :: "string \<Rightarrow> int" where
  "exponent_part s =
     (case s of
        [] \<Rightarrow> 0
      | c # r \<Rightarrow>
          (if c = CHR ''e'' \<or> c = CHR ''E''
           then (let (neg, r') = take_sign r; ds = takeWhile is_digit r'
                 in if ds = [] then 0
                    else (if neg then - int (digits_value 10 ds) else int (digits_value 10 ds)))
           else 0))"

text \<open>
  \<^verbatim>\<open>parseFloat(s)\<close>: leading white space, a sign, then the longest prefix that is a
  decimal literal (digits, a point, digits, an exponent; digits on at least one side of
  the point); \<^verbatim>\<open>NaN\<close> when there is none. The literal \<^verbatim>\<open>Infinity\<close>, whose value is
  not a real, is not read here: a scale line holds a ratio or cents.
\<close>

definition parseFloat :: "string \<Rightarrow> real option" where
  "parseFloat str =
     (let (neg, s) = take_sign (dropWhile is_space str);
          ip = takeWhile is_digit s;
          r1 = dropWhile is_digit s;
          point = (case r1 of [] \<Rightarrow> False | c # _ \<Rightarrow> c = CHR ''.'');
          fp = (if point then takeWhile is_digit (tl r1) else []);
          r2 = (if point then dropWhile is_digit (tl r1) else r1);
          m = real (digits_value 10 ip) + real (digits_value 10 fp) / 10 ^ length fp;
          v = m * 10 powi exponent_part r2
      in if ip = [] \<and> fp = [] then None else Some (if neg then - v else v))"

text \<open>
  \<^verbatim>\<open>parseScalaRatio(line)\<close>; \<open>None\<close> is the \<^verbatim>\<open>null\<close> it returns for a line it cannot
  read. The destructuring \<^verbatim>\<open>[num, denom]\<close> takes the first two pieces of the split.
\<close>

definition parseScalaRatio :: "string \<Rightarrow> real option" where
  "parseScalaRatio line0 =
     (let line = trim (hd (split (CHR ''!'') line0))
      in if line = [] then None
         else if includes_str line (CHR ''/'')
         then (case map (\<lambda>x. parseFloat (trim x)) (split (CHR ''/'') line) of
                 num # denom # _ \<Rightarrow>
                   (case (num, denom) of
                      (Some n, Some d) \<Rightarrow> if d \<noteq> 0 then Some (n / d) else None
                    | _ \<Rightarrow> None)
               | _ \<Rightarrow> None)
         else (case parseFloat line of
                 Some cents \<Rightarrow> Some (pow2 (cents / 1200))
               | None \<Rightarrow> None))"

section \<open>Program state and the sound object\<close>

text \<open>
  A handler either returns or stops at an uncaught \<^verbatim>\<open>TypeError\<close>: \<^verbatim>\<open>sound.stop()\<close>
  or \<^verbatim>\<open>sound.rate(ratio)\<close> while \<^verbatim>\<open>sound\<close> is \<^verbatim>\<open>undefined\<close>. What it has assigned
  before the throw stays assigned, so a handler yields its outcome together with the
  state it leaves.
\<close>

datatype outcome = Normal | TypeError

text \<open>
  Each sample that \<^verbatim>\<open>loadSound\<close> decodes is a sound object of its own; the objects are
  numbered in the order in which they are assigned to \<^verbatim>\<open>sound\<close>. A call is recorded
  with the object that receives it and what is invoked, \<^verbatim>\<open>rate(ratio)\<close>, \<^verbatim>\<open>play()\<close> or
  \<^verbatim>\<open>stop()\<close>. The methods take no note: the third component is not passed to the
  object, it records which note the enclosing function was called for (\<^verbatim>\<open>midiNote\<close>
  in \<^verbatim>\<open>playNote\<close> and \<^verbatim>\<open>stopNote\<close>, \<^verbatim>\<open>noteNumber\<close> in
  \<^verbatim>\<open>createPitchedSamples\<close>).
\<close>

datatype invocation = Rate "real option" | Play | Stop

datatype call = Call (receiver: nat) (invoked: invocation) (issued_for: jsval)

text \<open>
  The globals of the source. \<^verbatim>\<open>sound\<close> is \<open>None\<close> while it is \<^verbatim>\<open>undefined\<close>.
  \<^verbatim>\<open>isPlaying\<close> is an object: its properties in creation order, a missing one
  reading \<^verbatim>\<open>undefined\<close>. \<^verbatim>\<open>soundPlayers\<close> is written by
  \<^verbatim>\<open>createPitchedSamples\<close> and read nowhere; it is left out, the \<^verbatim>\<open>rate\<close> calls
  that fill it are kept. \<open>calls\<close> is the record of the calls made so far.
\<close>

record state =
  sound :: "nat option"
  isPlaying :: "(jsval \<times> bool) list"
  sampleLoaded :: bool
  scaleLoaded :: bool
  pressedKeys :: "jsval set"
  scaleRatios :: "real list"
  calls :: "call list"

definition initial_state :: state where
  "initial_state =
     \<lparr>sound = None, isPlaying = [], sampleLoaded = False, scaleLoaded = False,
      pressedKeys = {}, scaleRatios = [], calls = []\<rparr>"

text \<open>Reading \<^verbatim>\<open>isPlaying[k]\<close> in a condition, and the assignment \<^verbatim>\<open>isPlaying[k] = v\<close>.\<close>

definition truthy :: "(jsval \<times> bool) list \<Rightarrow> jsval \<Rightarrow> bool" where
  "truthy obj k = (case map_of obj k of None \<Rightarrow> False | Some b \<Rightarrow> b)"

primrec assign :: "(jsval \<times> bool) list \<Rightarrow> jsval \<Rightarrow> bool \<Rightarrow> (jsval \<times> bool) list" where
  "assign [] k v = [(k, v)]"
| "assign (p # ps) k v = (if fst p = k then (k, v) # ps else p # assign ps k v)"

text \<open>
  \<^verbatim>\<open>Object.keys\<close>: the keys that are array indices in ascending order, then the others
  in creation order.
\<close>

fun is_index :: "jsval \<Rightarrow> bool" where
  "is_index (Num n) = (0 \<le> n \<and> n \<le> 4294967294)"
| "is_index _ = False"

fun index_of :: "jsval \<Rightarrow> int" where
  "index_of (Num n) = n"
| "index_of _ = 0"

definition object_keys :: "(jsval \<times> bool) list \<Rightarrow> jsval list" where
  "object_keys obj =
     sort_key index_of (filter is_index (map fst obj)) @
     filter (\<lambda>k. \<not> is_index k) (map fst obj)"

section \<open>Scale loading\<close>

definition initializeDefaultScale :: "state \<Rightarrow> state" where
  "initializeDefaultScale s = s\<lparr>scaleRatios := default_ratios, scaleLoaded := True\<rparr>"

text \<open>\<^verbatim>\<open>setup()\<close>, without the canvas and the file inputs.\<close>

definition setup_sketch :: state where
  "setup_sketch = initializeDefaultScale initial_state"

text \<open>
  The two nested loops of \<^verbatim>\<open>createPitchedSamples\<close>: for each of two octaves, one
  \<^verbatim>\<open>rate\<close> call per table entry, on the sound object \<open>obj\<close>.
\<close>

definition pitched_calls :: "nat \<Rightarrow> real list \<Rightarrow> call list" where
  "pitched_calls obj rs =
     concat (map (\<lambda>octave. map (\<lambda>i.
         (let noteNumber = Num (baseNote + int octave * int (length rs) + int i)
          in Call obj (Rate (calculatePitchRatio rs noteNumber)) noteNumber))
       [0 ..< length rs]) [0 ..< 2])"

text \<open>\<^verbatim>\<open>if (!sound || !scaleLoaded) return;\<close> guards the loops.\<close>

definition createPitchedSamples :: "state \<Rightarrow> state" where
  "createPitchedSamples s =
     (case sound s of
        None \<Rightarrow> s
      | Some obj \<Rightarrow>
          if \<not> scaleLoaded s then s
          else s\<lparr>calls := calls s @ pitched_calls obj (scaleRatios s)\<rparr>)"

text \<open>
  \<^verbatim>\<open>handleSclFile(file)\<close> up to the start of the asynchronous read: the extension
  check and the reset of the table.
\<close>

definition handleSclFile :: "string \<Rightarrow> state \<Rightarrow> state" where
  "handleSclFile name s =
     (if \<not> endsWith name ''.scl'' then s else s\<lparr>scaleRatios := []\<rparr>)"

text \<open>
  The loop over the data lines, \<^verbatim>\<open>for (let i = 2; i < lines.length; i++)\<close>, run on
  the lines from index 2 on.
\<close>

primrec push_ratios :: "string list \<Rightarrow> real list \<Rightarrow> real list" where
  "push_ratios [] rs = rs"
| "push_ratios (l # ls) rs =
     push_ratios ls (case parseScalaRatio l of None \<Rightarrow> rs | Some ratio \<Rightarrow> rs @ [ratio])"

text \<open>
  \<^verbatim>\<open>if (scaleRatios[scaleRatios.length - 1] !== 2) scaleRatios.push(2)\<close>; on an empty
  array the read is \<^verbatim>\<open>undefined\<close>, which is not 2.
\<close>

definition ensure_octave :: "real list \<Rightarrow> real list" where
  "ensure_octave rs = (if rs = [] \<or> last rs \<noteq> 2 then rs @ [2] else rs)"

text \<open>
  The lines that the callback keeps:
  \<^verbatim>\<open>fileContent.split('\n').map(line => line.trim()).filter(line => line && !line.startsWith('!'))\<close>
\<close>

definition usable_lines :: "string \<Rightarrow> string list" where
  "usable_lines fileContent =
     filter (\<lambda>line. line \<noteq> [] \<and> \<not> startsWith line ''!'')
       (map trim (split (CHR 0x0A) fileContent))"

text \<open>
  \<^verbatim>\<open>reader.onload\<close>, the callback of the read, on the text of the file. It runs
  whenever the read completes: other handlers may run between \<^verbatim>\<open>handleSclFile\<close> and
  it. The console output and the redraw are not modelled.
\<close>

definition onload :: "string \<Rightarrow> state \<Rightarrow> state" where
  "onload fileContent s =
     (let lines = usable_lines fileContent
      in if length lines < 2 then s
         else (case parseInt (lines ! 1) of
                 None \<Rightarrow> s
               | Some numNotes \<Rightarrow>
                   if numNotes \<le> 0 then s
                   else (let rs = ensure_octave (push_ratios (drop 2 lines) (scaleRatios s @ [1]));
                             s1 = s\<lparr>scaleRatios := rs\<rparr>
                         in if length rs > 1
                            then (let s2 = s1\<lparr>scaleLoaded := True\<rparr>
                                  in if sampleLoaded s2 then createPitchedSamples s2 else s2)
                            else initializeDefaultScale s1)))"

text \<open>The number of the next sound object: it differs from all assigned before.\<close>

definition fresh_sound :: "state \<Rightarrow> nat" where
  "fresh_sound s = (case sound s of None \<Rightarrow> 0 | Some obj \<Rightarrow> Suc obj)"

text \<open>
  The callback that \<^verbatim>\<open>handleAudioFile\<close> gives to \<^verbatim>\<open>loadSound\<close>, run when an audio
  file has been decoded:
  \<^verbatim>\<open>sound = loaded; sampleLoaded = true; createPitchedSamples();\<close>
  The object that \<^verbatim>\<open>sound\<close> held before is neither stopped nor kept.
\<close>

definition audio_loaded :: "state \<Rightarrow> state" where
  "audio_loaded s =
     createPitchedSamples (s\<lparr>sound := Some (fresh_sound s), sampleLoaded := True\<rparr>)"

section \<open>Note tracking\<close>

text \<open>
  \<^verbatim>\<open>stopNote(midiNote)\<close>. With the flag set and no sound object, \<^verbatim>\<open>sound.stop()\<close>
  throws before the flag is cleared.
\<close>

definition stopNote :: "jsval \<Rightarrow> state \<Rightarrow> outcome \<times> state" where
  "stopNote midiNote s =
     (if truthy (isPlaying s) midiNote
      then (case sound s of
              None \<Rightarrow> (TypeError, s)
            | Some obj \<Rightarrow>
                (Normal, s\<lparr>calls := calls s @ [Call obj Stop midiNote],
                           isPlaying := assign (isPlaying s) midiNote False\<rparr>))
      else (Normal, s))"

text \<open>
  \<^verbatim>\<open>playNote(midiNote)\<close>. A throw inside \<^verbatim>\<open>stopNote\<close> ends it; with no sound
  object \<^verbatim>\<open>sound.rate(ratio)\<close> throws.
\<close>

definition playNote :: "jsval \<Rightarrow> state \<Rightarrow> outcome \<times> state" where
  "playNote midiNote s =
     (if \<not> sampleLoaded s then (Normal, s)
      else (case (if truthy (isPlaying s) midiNote then stopNote midiNote s else (Normal, s)) of
              (TypeError, s1) \<Rightarrow> (TypeError, s1)
            | (Normal, s1) \<Rightarrow>
                (let ratio = calculatePitchRatio (scaleRatios s1) midiNote
                 in case sound s1 of
                      None \<Rightarrow> (TypeError, s1)
                    | Some obj \<Rightarrow>
                        (Normal,
                         s1\<lparr>calls := calls s1 @
                                       [Call obj (Rate ratio) midiNote, Call obj Play midiNote],
                            isPlaying := assign (isPlaying s1) midiNote True\<rparr>))))"

section \<open>Input handlers\<close>

definition KEYBOARD_MAP :: "(string \<times> int) list" where
  "KEYBOARD_MAP =
     [(''a'', 60), (''w'', 61), (''s'', 62), (''e'', 63), (''d'', 64), (''f'', 65), (''t'', 66),
      (''g'', 67), (''y'', 68), (''h'', 69), (''u'', 70), (''j'', 71), (''k'', 72)]"

text \<open>
  \<^verbatim>\<open>KEYBOARD_MAP[k]\<close>: the number stored under the own property \<open>k\<close>, or
  \<^verbatim>\<open>undefined\<close>. The names that an object literal inherits from its prototype are
  not names of keys that p5 reports and are left out.
\<close>

definition keyboard_lookup :: "string \<Rightarrow> jsval" where
  "keyboard_lookup k = (case map_of KEYBOARD_MAP k of None \<Rightarrow> Undefined | Some n \<Rightarrow> Num n)"

definition keyPressed :: "string \<Rightarrow> state \<Rightarrow> outcome \<times> state" where
  "keyPressed key s =
     (let note = keyboard_lookup (toLowerCase key)
      in if note \<noteq> Null
         then playNote note (s\<lparr>pressedKeys := insert note (pressedKeys s)\<rparr>)
         else (Normal, s))"

definition keyReleased :: "string \<Rightarrow> state \<Rightarrow> outcome \<times> state" where
  "keyReleased key s =
     (let note = keyboard_lookup (toLowerCase key)
      in if note \<noteq> Null
         then stopNote note (s\<lparr>pressedKeys := pressedKeys s - {note}\<rparr>)
         else (Normal, s))"

definition KEY_WIDTH :: real where
  "KEY_WIDTH = 40"

definition KEY_HEIGHT :: real where
  "KEY_HEIGHT = 150"

definition BLACK_KEY_HEIGHT_RATIO :: real where
  "BLACK_KEY_HEIGHT_RATIO = 0.6"

definition WHITE_KEY_OFFSETS :: "int list" where
  "WHITE_KEY_OFFSETS = [0, 2, 4, 5, 7, 9, 11]"

text \<open>The entries \<^verbatim>\<open>null\<close> of the table are \<open>None\<close>.\<close>

definition BLACK_KEY_OFFSETS :: "int option list" where
  "BLACK_KEY_OFFSETS = [Some 1, Some 3, None, Some 6, Some 8, Some 10, None]"

text \<open>The operator \<^verbatim>\<open>%\<close> on reals with a non-zero divisor: the quotient is truncated.\<close>

definition js_rem_real :: "real \<Rightarrow> real \<Rightarrow> real" where
  "js_rem_real x m = x - m * of_int (if 0 \<le> x / m then \<lfloor>x / m\<rfloor> else \<lceil>x / m\<rceil>)"

text \<open>
  \<^verbatim>\<open>handlePianoClick()\<close> on the pointer position. The black keys are tested first;
  the conjunction of the source reads the offset table only with an index in range.
\<close>

definition handlePianoClick :: "real \<Rightarrow> real \<Rightarrow> state \<Rightarrow> outcome \<times> state" where
  "handlePianoClick mouseX mouseY s =
     (if mouseY < 200 \<or> mouseY > 200 + KEY_HEIGHT then (Normal, s)
      else (let x = mouseX;
                octave = \<lfloor>x / (7 * KEY_WIDTH)\<rfloor>;
                remainder = js_rem_real x (7 * KEY_WIDTH);
                blackKeyIndex = \<lfloor>(remainder - KEY_WIDTH * 0.7) / KEY_WIDTH\<rfloor>;
                black = (if mouseY \<le> 200 + KEY_HEIGHT * BLACK_KEY_HEIGHT_RATIO \<and>
                            remainder \<ge> KEY_WIDTH * 0.7 \<and>
                            blackKeyIndex \<ge> 0 \<and> blackKeyIndex < 7
                         then BLACK_KEY_OFFSETS ! nat blackKeyIndex else None)
            in case black of
                 Some offset \<Rightarrow>
                   (let note = Num (baseNote + octave * 12 + offset)
                    in playNote note (s\<lparr>pressedKeys := insert note (pressedKeys s)\<rparr>))
               | None \<Rightarrow>
                   (let whiteKeyIndex = \<lfloor>remainder / KEY_WIDTH\<rfloor>
                    in if whiteKeyIndex \<ge> 0 \<and> whiteKeyIndex < 7
                       then (let note = Num (baseNote + octave * 12 +
                                             WHITE_KEY_OFFSETS ! nat whiteKeyIndex)
                             in playNote note (s\<lparr>pressedKeys := insert note (pressedKeys s)\<rparr>))
                       else (Normal, s))))"

definition mousePressed :: "real \<Rightarrow> real \<Rightarrow> state \<Rightarrow> outcome \<times> state" where
  "mousePressed mouseX mouseY s = handlePianoClick mouseX mouseY s"

text \<open>\<^verbatim>\<open>keys.forEach(stopNote)\<close>: a throw ends the iteration.\<close>

fun stop_each :: "jsval list \<Rightarrow> state \<Rightarrow> outcome \<times> state" where
  "stop_each [] s = (Normal, s)"
| "stop_each (k # ks) s =
     (case stopNote k s of
        (TypeError, s1) \<Rightarrow> (TypeError, s1)
      | (Normal, s1) \<Rightarrow> stop_each ks s1)"

text \<open>\<^verbatim>\<open>pressedKeys.clear(); Object.keys(isPlaying).forEach(stopNote)\<close>\<close>

definition mouseReleased :: "state \<Rightarrow> outcome \<times> state" where
  "mouseReleased s = stop_each (object_keys (isPlaying s)) (s\<lparr>pressedKeys := {}\<rparr>)"

section \<open>Runs of the program\<close>

text \<open>
  What can happen to the running sketch: a key or pointer event, the choice of a scale
  file, the completion of a read of a scale file, the completion of the decoding of an
  audio file. A run starts after \<^verbatim>\<open>setup()\<close> and handles its events one by one, in
  order; after a handler that throws, the next event finds the state the throw left.
  The two completions may come at any point of a run.
\<close>

datatype event =
    KeyPressed string
  | KeyReleased string
  | MousePressed real real
  | MouseReleased
  | SclChosen string
  | SclRead string
  | AudioLoaded

fun step :: "state \<Rightarrow> event \<Rightarrow> state" where
  "step s (KeyPressed key) = snd (keyPressed key s)"
| "step s (KeyReleased key) = snd (keyReleased key s)"
| "step s (MousePressed x y) = snd (mousePressed x y s)"
| "step s MouseReleased = snd (mouseReleased s)"
| "step s (SclChosen name) = handleSclFile name s"
| "step s (SclRead fileContent) = onload fileContent s"
| "step s AudioLoaded = audio_loaded s"

definition run :: "event list \<Rightarrow> state" where
  "run evs = foldl step setup_sketch evs"

section \<open>What the sound objects have been told\<close>

text \<open>
  The sound objects that have been told to play for note \<open>i\<close> and not since told to
  stop for it: a play issued for \<open>i\<close> adds its receiver, a stop issued for \<open>i\<close> removes
  its receiver, and no other call changes the set.
\<close>

fun pending_step :: "jsval \<Rightarrow> nat set \<Rightarrow> call \<Rightarrow> nat set" where
  "pending_step i P (Call obj m j) =
     (if j = i
      then (case m of Play \<Rightarrow> insert obj P | Stop \<Rightarrow> P - {obj} | Rate r \<Rightarrow> P)
      else P)"

definition pending :: "jsval \<Rightarrow> call list \<Rightarrow> nat set" where
  "pending i cs = foldl (pending_step i) {} cs"


text \<open>
  No play for note \<open>i\<close> is issued while a play for \<open>i\<close> is pending on any sound object;
  \<open>P\<close> holds the objects on which one is pending at the start of the list.
\<close>

fun single_voice :: "jsval \<Rightarrow> nat set \<Rightarrow> call list \<Rightarrow> bool" where
  "single_voice i P [] = True"
| "single_voice i P (c # cs) =
     ((if issued_for c = i \<and> invoked c = Play then P = {} else True) \<and>
      single_voice i (pending_step i P c) cs)"

text \<open>The stop calls that a sound object has received, whatever note they were issued for.\<close>

definition stops_received :: "nat \<Rightarrow> call list \<Rightarrow> call list" where
  "stops_received obj cs = filter (\<lambda>c. receiver c = obj \<and> invoked c = Stop) cs"

text \<open>
  In a state that a run reaches, the flag \<^verbatim>\<open>sampleLoaded\<close> is set exactly when there
  is a sound object, and a note is marked as playing only when there is one.
\<close>

definition loaded_ok :: "state \<Rightarrow> bool" where
  "loaded_ok s \<longleftrightarrow>
     (sampleLoaded s \<longleftrightarrow> sound s \<noteq> None) \<and>
     (\<forall>i. truthy (isPlaying s) i \<longrightarrow> sound s \<noteq> None)"

text \<open>A note marked as playing is pending on some sound object.\<close>

definition engaged_pending :: "state \<Rightarrow> bool" where
  "engaged_pending s \<longleftrightarrow> (\<forall>i. truthy (isPlaying s) i \<longrightarrow> pending i (calls s) \<noteq> {})"

text \<open>
  While the first sound object has not been replaced, every call has gone to it, the
  notes pending on it are the ones marked as playing, and no note has two plays pending.
\<close>

definition first_sound :: "state \<Rightarrow> bool" where
  "first_sound s \<longleftrightarrow> sound s = None \<or> sound s = Some 0"

definition tracked :: "state \<Rightarrow> bool" where
  "tracked s \<longleftrightarrow>
     (first_sound s \<longrightarrow>
        (\<forall>c \<in> set (calls s). receiver c = 0) \<and>
        (\<forall>i. pending i (calls s) = (if truthy (isPlaying s) i then {0} else {}) \<and>
             single_voice i {} (calls s)))"

definition reachable_ok :: "state \<Rightarrow> bool" where
  "reachable_ok s \<longleftrightarrow> loaded_ok s \<and> engaged_pending s \<and> tracked s"

section \<open>Arithmetic of the resolver\<close>

lemma js_rem_nonneg: "0 \<le> n \<Longrightarrow> 0 < m \<Longrightarrow> js_rem n m = Some (n mod m)"
  by (cases "n = 0") (simp_all add: js_rem_def)

lemma js_rem_neg: "n < 0 \<Longrightarrow> 0 < m \<Longrightarrow> js_rem n m = Some (- ((- n) mod m))"
  by (simp add: js_rem_def)

text \<open>With a positive modulus the wrapper \<^verbatim>\<open>mod\<close> is the mathematical remainder.\<close>

lemma mod_js_pos:
  assumes m: "0 < m"
  shows "mod_js n m = Some (n mod m)"
proof (cases "0 \<le> n")
  case True
  have "0 \<le> n mod m + m" using m pos_mod_sign[of m n] by linarith
  then have "js_rem (n mod m + m) m = Some (n mod m)"
    using m by (simp add: js_rem_nonneg)
  then show ?thesis using True m by (simp add: mod_js_def js_rem_nonneg)
next
  case False
  then have n: "n < 0" by simp
  let ?r = "- ((- n) mod m)"
  have "0 \<le> ?r + m" using m pos_mod_bound[of m "- n"] by linarith
  then have "js_rem (?r + m) m = Some ((?r + m) mod m)"
    using m by (rule js_rem_nonneg)
  moreover have "(?r + m) mod m = n mod m"
    by (metis add.inverse_inverse mod_add_self2 mod_minus_eq)
  ultimately show ?thesis using n m by (simp add: mod_js_def js_rem_neg)
qed

lemma mod_js_zero: "mod_js n 0 = None"
  by (simp add: mod_js_def js_rem_def)

text \<open>
  What the code computes on a non-empty table: the divisor and the modulus are the
  length of the table, the multiplier of one wrap is 2.
\<close>

lemma calculatePitchRatio_Num:
  assumes "rs \<noteq> []"
  shows "calculatePitchRatio rs (Num n) =
           Some (rs ! nat ((n - baseNote) mod int (length rs)) *
                 2 powr real_of_int ((n - baseNote) div int (length rs)))"
proof -
  have len: "0 < int (length rs)" using assms by simp
  have idx: "0 \<le> (n - baseNote) mod int (length rs)"
            "(n - baseNote) mod int (length rs) < int (length rs)"
    using len by simp_all
  have fl: "\<lfloor>real_of_int (n - baseNote) / real_of_int (int (length rs))\<rfloor>
              = (n - baseNote) div int (length rs)"
    by (rule floor_divide_of_int_eq)
  show ?thesis
    unfolding calculatePitchRatio_def Let_def
    using idx fl by (simp add: mod_js_pos[OF len] pow2_def)
qed

lemma calculatePitchRatio_empty: "calculatePitchRatio [] k = None"
  by (cases k) (simp_all add: calculatePitchRatio_def mod_js_zero)

lemma default_ratios_eq:
  "default_ratios = map (\<lambda>i. 2 powr (real i / 12)) [0 ..< 12] @ [2]"
  by (simp add: default_ratios_def pow2_def upt_rec numeral_eq_Suc)

section \<open>Properties of the tracker's object\<close>

lemma truthy_assign: "truthy (assign obj k v) j = (if j = k then v else truthy obj j)"
  by (induction obj) (auto simp: truthy_def)

section \<open>The base note\<close>

text \<open>
  Claim C8. For every table that begins with the ratio 1, the base note resolves to 1:
  \<^verbatim>\<open>calculatePitchRatio(baseNote)\<close> is the unison.
\<close>

theorem base_note_unison:
  assumes "rs \<noteq> []" and "hd rs = 1"
  shows "calculatePitchRatio rs (Num baseNote) = Some 1"
  using assms by (cases rs) (simp_all add: calculatePitchRatio_Num)

theorem base_note_unison_witness:
  "[1, 3 / 2, 2] \<noteq> ([] :: real list) \<and> hd [1, 3 / 2, 2 :: real] = 1 \<and>
   calculatePitchRatio [1, 3 / 2, 2] (Num baseNote) = Some 1"
  using base_note_unison [of "[1, 3 / 2, 2]"] by simp

section \<open>The default table\<close>

text \<open>
  Claim C9. \<^verbatim>\<open>initializeDefaultScale\<close> leaves the 13 entries of twelve-tone equal
  temperament in \<^verbatim>\<open>scaleRatios\<close>: \<open>2 powr (i / 12)\<close> for \<open>i\<close> from 0 to 11, then 2;
  the first entry is 1 and the last is 2.
\<close>

theorem initializeDefaultScale_table:
  "scaleRatios (initializeDefaultScale s) = map (\<lambda>i. 2 powr (real i / 12)) [0 ..< 12] @ [2] \<and>
   length (scaleRatios (initializeDefaultScale s)) = 13 \<and>
   scaleRatios (initializeDefaultScale s) ! 0 = 1 \<and>
   last (scaleRatios (initializeDefaultScale s)) = 2 \<and>
   scaleLoaded (initializeDefaultScale s)"
  by (simp add: initializeDefaultScale_def default_ratios_eq upt_rec numeral_eq_Suc)

section \<open>The resolver against the specification's formula\<close>

lemma lines_fifth: "usable_lines ''fifth\<newline>1\<newline>3/2'' = [''fifth'', ''1'', ''3/2'']"
  by (simp add: usable_lines_def trim_def is_space_def startsWith_def)

lemma parseInt_count_one: "parseInt ''1'' = Some 1"
  by (simp add: parseInt_def is_space_def startsWith_def is_digit_def digits_value_def
        digit_value_def)

lemma parseScalaRatio_fifth: "parseScalaRatio ''3/2'' = Some (3 / 2)"
  by (simp add: parseScalaRatio_def parseFloat_def trim_def is_space_def includes_str_def
        is_digit_def digits_value_def digit_value_def exponent_part_def)

lemma loaded_fifth_table:
  "scaleRatios (run [SclChosen ''fifth.scl'', SclRead ''fifth\<newline>1\<newline>3/2'']) = [1, 3 / 2, 2]"
  by (simp add: run_def handleSclFile_def endsWith_def onload_def lines_fifth parseInt_count_one
        parseScalaRatio_fifth ensure_octave_def Let_def setup_sketch_def
        initializeDefaultScale_def initial_state_def)

text \<open>
  Claim C1. The code does not compute the specification's formula. It divides and
  reduces by the length of the table, not by the length minus one. On the table
  \<open>[1, 3/2, 2]\<close>, which the loader builds from the one data line \<^verbatim>\<open>3/2\<close>, the period is
  2 and its ratio 2; the formula gives 3 for the note three steps above the base (one
  period and one step), the code gives 2. On the default table the formula gives
  \<open>2 powr (1/12) * 2\<close> for note 73, the code gives 2.
\<close>

theorem resolver_formula_fails_past_first_period:
  "scaleRatios (run [SclChosen ''fifth.scl'', SclRead ''fifth\<newline>1\<newline>3/2'']) = [1, 3 / 2, 2] \<and>
   spec_resolve [1, 3 / 2, 2] baseNote 63 = 3 \<and>
   calculatePitchRatio [1, 3 / 2, 2] (Num 63) = Some 2 \<and>
   scaleRatios (run []) = default_ratios \<and>
   spec_resolve default_ratios baseNote 73 = 2 powr (1 / 12) * 2 \<and>
   calculatePitchRatio default_ratios (Num 73) = Some 2 \<and>
   2 powr (1 / 12) * 2 \<noteq> (2 :: real)"
proof -
  have ne: "default_ratios \<noteq> []" by (simp add: default_ratios_eq)
  have len: "length default_ratios = 13" by (simp add: default_ratios_eq)
  have n1: "default_ratios ! Suc 0 = 2 powr (1 / 12)"
    by (simp add: default_ratios_eq nth_append upt_rec numeral_eq_Suc)
  have n0: "default_ratios ! 0 = 1"
    by (simp add: default_ratios_eq nth_append upt_rec numeral_eq_Suc)
  have n12: "default_ratios ! 12 = 2"
    by (simp add: default_ratios_eq nth_append)
  have a: "spec_resolve [1, 3 / 2, 2] baseNote 63 = 3"
    by (simp add: spec_resolve_def spec_period_def baseNote_def)
  have b: "calculatePitchRatio [1, 3 / 2, 2] (Num 63) = Some 2"
    by (simp add: calculatePitchRatio_Num baseNote_def)
  have c: "spec_resolve default_ratios baseNote 73 = 2 powr (1 / 12) * 2"
    by (simp add: spec_resolve_def spec_period_def baseNote_def len n1 n12)
  have d: "calculatePitchRatio default_ratios (Num 73) = Some 2"
    by (simp add: calculatePitchRatio_Num[OF ne] len n0 baseNote_def)
  have "(2::real) powr 0 < 2 powr (1 / 12)" by (rule powr_less_mono) simp_all
  then have e: "2 powr (1 / 12) * 2 \<noteq> (2 :: real)" by simp
  have f: "scaleRatios (run []) = default_ratios"
    by (simp add: run_def setup_sketch_def initializeDefaultScale_def)
  show ?thesis using loaded_fifth_table a b c d e f by simp
qed

section \<open>Octave equivalence\<close>

lemma default_ratios_length: "length default_ratios = 13"
  by (simp add: default_ratios_eq)

lemma default_ratios_nth:
  "i < 12 \<Longrightarrow> default_ratios ! i = 2 powr (real i / 12)"
  "default_ratios ! 12 = 2"
  by (simp_all add: default_ratios_eq nth_append)

text \<open>
  Claim C2. The law \<open>resolve (base + k * period) = resolve base * period_ratio ^ k\<close>
  fails in the code. On the default table the period is 12 and its ratio 2, the base
  note resolves to 1, and the note two periods up resolves to \<open>2 * 2 powr (11/12)\<close>, not
  to 4: the code divides by the table length 13. One step above the octave the code
  yields the octave again.
\<close>

theorem octave_law_fails_on_default_table:
  "spec_period default_ratios = 12 \<and>
   default_ratios ! nat (spec_period default_ratios) = 2 \<and>
   calculatePitchRatio default_ratios (Num baseNote) = Some 1 \<and>
   calculatePitchRatio default_ratios (Num (baseNote + 2 * spec_period default_ratios))
     = Some (2 * 2 powr (11 / 12)) \<and>
   2 * 2 powr (11 / 12) \<noteq> (1 :: real) * 2 powi 2 \<and>
   calculatePitchRatio default_ratios (Num 72) = Some 2 \<and>
   calculatePitchRatio default_ratios (Num 73) = Some 2"
proof -
  have ne: "default_ratios \<noteq> []" using default_ratios_length by auto
  have "(2::real) powr (11 / 12) < 2 powr 1" by (rule powr_less_mono) simp_all
  then have neq: "2 * 2 powr (11 / 12) \<noteq> (1 :: real) * 2 powi 2" by simp
  have a: "calculatePitchRatio default_ratios (Num (baseNote + 2 * spec_period default_ratios))
             = Some (2 * 2 powr (11 / 12))"
    by (simp add: calculatePitchRatio_Num[OF ne] default_ratios_length spec_period_def
          default_ratios_nth)
  have b: "calculatePitchRatio default_ratios (Num baseNote) = Some 1"
    by (simp add: calculatePitchRatio_Num[OF ne] default_ratios_length default_ratios_nth)
  have c: "calculatePitchRatio default_ratios (Num 72) = Some 2"
    by (simp add: calculatePitchRatio_Num[OF ne] default_ratios_length default_ratios_nth
          baseNote_def)
  have d: "calculatePitchRatio default_ratios (Num 73) = Some 2"
    by (simp add: calculatePitchRatio_Num[OF ne] default_ratios_length default_ratios_nth
          baseNote_def)
  show ?thesis
    using a b c d neq by (simp add: spec_period_def default_ratios_length default_ratios_nth)
qed

section \<open>Failed scale loads\<close>

lemma push_ratios_extends: "\<exists>ys. push_ratios ls xs = xs @ ys"
proof (induction ls arbitrary: xs)
  case Nil
  show ?case by simp
next
  case (Cons l ls)
  show ?case
  proof (cases "parseScalaRatio l")
    case None
    then show ?thesis using Cons.IH[of xs] by simp
  next
    case (Some r)
    obtain ys where "push_ratios ls (xs @ [r]) = (xs @ [r]) @ ys"
      using Cons.IH[of "xs @ [r]"] by blast
    then show ?thesis using Some by simp
  qed
qed

text \<open>
  After the unison has been pushed and the octave ensured, the table has at least two
  entries: the test \<^verbatim>\<open>scaleRatios.length > 1\<close> of the loader cannot fail.
\<close>

lemma ensure_octave_length: "1 < length (ensure_octave (push_ratios ls (rs @ [1])))"
proof -
  obtain ys where e: "push_ratios ls (rs @ [1]) = (rs @ [1]) @ ys"
    using push_ratios_extends by blast
  show ?thesis
  proof (cases "rs = [] \<and> ys = []")
    case True
    then show ?thesis using e by (simp add: ensure_octave_def)
  next
    case False
    then have "1 < length ((rs @ [1]) @ ys)" by (cases rs; cases ys) simp_all
    then show ?thesis using e by (simp add: ensure_octave_def)
  qed
qed

lemma handleSclFile_scl: "handleSclFile ''bad.scl'' s = s\<lparr>scaleRatios := []\<rparr>"
  by (simp add: handleSclFile_def endsWith_def)

lemma handleSclFile_txt: "handleSclFile ''bad.txt'' s = s"
  by (simp add: handleSclFile_def endsWith_def)

lemma lines_one: "usable_lines ''just a description'' = [''just a description'']"
  by (simp add: usable_lines_def trim_def is_space_def startsWith_def)

lemma lines_bad_count:
  "usable_lines ''desc\<newline>zero\<newline>3/2'' = [''desc'', ''zero'', ''3/2'']"
  by (simp add: usable_lines_def trim_def is_space_def startsWith_def)

lemma lines_bad_data:
  "usable_lines ''desc\<newline>1\<newline>abc'' = [''desc'', ''1'', ''abc'']"
  by (simp add: usable_lines_def trim_def is_space_def startsWith_def)

lemma parseInt_zero: "parseInt ''zero'' = None"
  by (simp add: parseInt_def is_space_def startsWith_def is_digit_def)

lemma parseInt_one: "parseInt ''1'' = Some 1"
  by (simp add: parseInt_def is_space_def startsWith_def is_digit_def digits_value_def
        digit_value_def)

lemma parseScalaRatio_abc: "parseScalaRatio ''abc'' = None"
  by (simp add: parseScalaRatio_def trim_def is_space_def includes_str_def parseFloat_def
        is_digit_def)

lemma onload_one_line: "onload ''just a description'' s = s"
  by (simp add: onload_def lines_one)

lemma onload_bad_count: "onload ''desc\<newline>zero\<newline>3/2'' s = s"
  by (simp add: onload_def lines_bad_count parseInt_zero)

lemma setup_sketch_fields:
  "scaleRatios setup_sketch = default_ratios" "scaleLoaded setup_sketch"
  "\<not> sampleLoaded setup_sketch" "isPlaying setup_sketch = []" "calls setup_sketch = []"
  "sound setup_sketch = None"
  by (simp_all add: setup_sketch_def initializeDefaultScale_def initial_state_def)

lemma two_entries_not_default: "[1, 2] \<noteq> default_ratios"
proof
  assume "[1, 2] = default_ratios"
  then have "length [1, 2 :: real] = length default_ratios" by simp
  then show False by (simp add: default_ratios_length)
qed

text \<open>
  Claim C3. A failed load does not leave the previous table in place. After
  \<^verbatim>\<open>setup()\<close>, choosing a file \<^verbatim>\<open>bad.scl\<close> empties \<^verbatim>\<open>scaleRatios\<close>; when its text
  has a single usable line, or a second line that is no positive count, the callback
  returns early and the table stays empty, with \<^verbatim>\<open>scaleLoaded\<close> still true, and
  every note resolves to \<^verbatim>\<open>NaN\<close>. Only a file name without the extension leaves the
  table as it was.
\<close>

theorem failed_load_leaves_empty_table:
  "scaleRatios (onload ''just a description'' (handleSclFile ''bad.scl'' setup_sketch)) = [] \<and>
   scaleRatios (onload ''desc\<newline>zero\<newline>3/2'' (handleSclFile ''bad.scl'' setup_sketch)) = [] \<and>
   scaleLoaded (onload ''just a description'' (handleSclFile ''bad.scl'' setup_sketch)) \<and>
   calculatePitchRatio
     (scaleRatios (onload ''just a description'' (handleSclFile ''bad.scl'' setup_sketch)))
     (Num 60) = None \<and>
   scaleRatios (handleSclFile ''bad.txt'' setup_sketch) = default_ratios"
  by (simp add: onload_one_line onload_bad_count handleSclFile_scl handleSclFile_txt
        setup_sketch_fields calculatePitchRatio_empty)

text \<open>
  Claim C4. A definition whose data lines all fail to parse is accepted: the loader
  appends the octave before it tests the length, so the table is \<open>[1, 2]\<close> and the
  branch that reports no valid ratios and restores the default table is never taken.
\<close>

theorem no_valid_ratios_is_accepted:
  "scaleRatios (onload ''desc\<newline>1\<newline>abc'' (handleSclFile ''bad.scl'' setup_sketch)) = [1, 2] \<and>
   [1, 2] \<noteq> default_ratios \<and>
   1 < length (ensure_octave (push_ratios ls (rs @ [1])))"
proof -
  have "scaleRatios (onload ''desc\<newline>1\<newline>abc'' (handleSclFile ''bad.scl'' setup_sketch)) = [1, 2]"
    by (simp add: onload_def lines_bad_data parseInt_one parseScalaRatio_abc handleSclFile_scl
          ensure_octave_def setup_sketch_fields Let_def)
  then show ?thesis using ensure_octave_length two_entries_not_default by simp
qed

section \<open>The tracker and the sound objects\<close>

lemma pending_append: "pending i (cs @ ds) = foldl (pending_step i) (pending i cs) ds"
  by (simp add: pending_def)

lemma single_voice_append:
  "single_voice i P (cs @ ds) \<longleftrightarrow>
     single_voice i P cs \<and> single_voice i (foldl (pending_step i) P cs) ds"
  by (induction cs arbitrary: P) auto

lemma rate_calls_inert:
  assumes "\<forall>c \<in> set cs. \<exists>r. invoked c = Rate r"
  shows "foldl (pending_step i) P cs = P" and "single_voice i P cs"
    and "stops_received obj cs = []"
proof -
  have step: "pending_step i P c = P" if "\<exists>r. invoked c = Rate r" for c P
    using that by (cases c) auto
  show "foldl (pending_step i) P cs = P"
    using assms by (induction cs arbitrary: P) (simp_all add: step)
  show "single_voice i P cs"
    using assms by (induction cs arbitrary: P) (auto simp: step)
  show "stops_received obj cs = []"
    using assms by (induction cs) (auto simp: stops_received_def)
qed

lemma pitched_calls_rates: "\<forall>c \<in> set (pitched_calls obj rs). \<exists>r. invoked c = Rate r"
  by (auto simp: pitched_calls_def Let_def)

lemma pitched_calls_receiver: "\<forall>c \<in> set (pitched_calls obj rs). receiver c = obj"
  by (auto simp: pitched_calls_def Let_def)

lemma reachable_ok_initial: "reachable_ok setup_sketch"
  by (simp add: reachable_ok_def loaded_ok_def engaged_pending_def tracked_def
        setup_sketch_fields truthy_def pending_def)

lemma reachable_ok_pressedKeys [simp]: "reachable_ok (s\<lparr>pressedKeys := ks\<rparr>) = reachable_ok s"
  by (simp add: reachable_ok_def loaded_ok_def engaged_pending_def tracked_def first_sound_def)

lemma reachable_ok_scaleRatios [simp]: "reachable_ok (s\<lparr>scaleRatios := rs\<rparr>) = reachable_ok s"
  by (simp add: reachable_ok_def loaded_ok_def engaged_pending_def tracked_def first_sound_def)

lemma reachable_ok_scaleLoaded [simp]: "reachable_ok (s\<lparr>scaleLoaded := b\<rparr>) = reachable_ok s"
  by (simp add: reachable_ok_def loaded_ok_def engaged_pending_def tracked_def first_sound_def)

text \<open>The two updates that the tracker makes, on a state with a sound object.\<close>

lemma reachable_ok_stop:
  assumes ok: "reachable_ok s" and obj: "sound s = Some obj"
  shows "reachable_ok (s\<lparr>calls := calls s @ [Call obj Stop k],
                         isPlaying := assign (isPlaying s) k False\<rparr>)"
proof -
  let ?t = "s\<lparr>calls := calls s @ [Call obj Stop k], isPlaying := assign (isPlaying s) k False\<rparr>"
  have l: "loaded_ok ?t"
    using ok obj by (simp add: reachable_ok_def loaded_ok_def truthy_assign)
  have e: "engaged_pending ?t"
    using ok by (simp add: reachable_ok_def engaged_pending_def truthy_assign pending_append)
  have t: "tracked ?t"
    using ok obj
    by (auto simp: reachable_ok_def tracked_def first_sound_def truthy_assign pending_append
          single_voice_append pending_def[symmetric])
  show ?thesis using l e t by (simp add: reachable_ok_def)
qed

lemma reachable_ok_play:
  assumes ok: "reachable_ok s" and obj: "sound s = Some obj"
    and idle: "\<not> truthy (isPlaying s) k"
  shows "reachable_ok (s\<lparr>calls := calls s @ [Call obj (Rate r) k, Call obj Play k],
                         isPlaying := assign (isPlaying s) k True\<rparr>)"
proof -
  let ?t = "s\<lparr>calls := calls s @ [Call obj (Rate r) k, Call obj Play k],
              isPlaying := assign (isPlaying s) k True\<rparr>"
  have l: "loaded_ok ?t"
    using ok obj by (simp add: reachable_ok_def loaded_ok_def truthy_assign)
  have e: "engaged_pending ?t"
    using ok by (simp add: reachable_ok_def engaged_pending_def truthy_assign pending_append)
  have t: "tracked ?t"
    using ok obj idle
    by (auto simp: reachable_ok_def tracked_def first_sound_def truthy_assign pending_append
          single_voice_append pending_def[symmetric])
  show ?thesis using l e t by (simp add: reachable_ok_def)
qed

lemma stopNote_cases:
  "(\<not> truthy (isPlaying s) k \<and> stopNote k s = (Normal, s)) \<or>
   (truthy (isPlaying s) k \<and> sound s = None \<and> stopNote k s = (TypeError, s)) \<or>
   (\<exists>obj. truthy (isPlaying s) k \<and> sound s = Some obj \<and>
          stopNote k s = (Normal, s\<lparr>calls := calls s @ [Call obj Stop k],
                                    isPlaying := assign (isPlaying s) k False\<rparr>))"
  by (cases "sound s") (simp_all add: stopNote_def)

lemma reachable_ok_stopNote: "reachable_ok s \<Longrightarrow> reachable_ok (snd (stopNote k s))"
  using stopNote_cases[of s k] reachable_ok_stop[of s _ k] by auto

lemma reachable_ok_playNote:
  assumes ok: "reachable_ok s"
  shows "reachable_ok (snd (playNote k s))"
proof (cases "sampleLoaded s")
  case False
  then show ?thesis using ok by (simp add: playNote_def)
next
  case True
  then obtain obj where obj: "sound s = Some obj"
    using ok by (auto simp: reachable_ok_def loaded_ok_def)
  show ?thesis
  proof (cases "truthy (isPlaying s) k")
    case False
    then show ?thesis
      using True obj reachable_ok_play[OF ok obj False] by (simp add: playNote_def Let_def)
  next
    case engaged: True
    let ?s1 = "s\<lparr>calls := calls s @ [Call obj Stop k],
                 isPlaying := assign (isPlaying s) k False\<rparr>"
    have ok1: "reachable_ok ?s1" by (rule reachable_ok_stop[OF ok obj])
    have obj1: "sound ?s1 = Some obj" using obj by simp
    have idle1: "\<not> truthy (isPlaying ?s1) k" by (simp add: truthy_assign)
    show ?thesis
      using True obj engaged reachable_ok_play[OF ok1 obj1 idle1]
      by (simp add: playNote_def stopNote_def Let_def)
  qed
qed

lemma reachable_ok_createPitchedSamples:
  assumes ok: "reachable_ok s"
  shows "reachable_ok (createPitchedSamples s)"
proof (cases "sound s")
  case None
  then show ?thesis using ok by (simp add: createPitchedSamples_def)
next
  case (Some obj)
  note inert = rate_calls_inert[OF pitched_calls_rates]
  show ?thesis
    using ok Some pitched_calls_receiver[of obj "scaleRatios s"]
    by (auto simp: createPitchedSamples_def reachable_ok_def loaded_ok_def engaged_pending_def
          tracked_def first_sound_def pending_append single_voice_append inert
          pending_def[symmetric])
qed

lemma reachable_ok_audio_loaded:
  assumes ok: "reachable_ok s"
  shows "reachable_ok (audio_loaded s)"
proof -
  let ?t = "s\<lparr>sound := Some (fresh_sound s), sampleLoaded := True\<rparr>"
  have "sound s = None" if "fresh_sound s = 0"
    using that by (cases "sound s") (simp_all add: fresh_sound_def)
  then have "reachable_ok ?t"
    using ok
    by (auto simp: reachable_ok_def loaded_ok_def engaged_pending_def tracked_def
          first_sound_def)
  then show ?thesis
    unfolding audio_loaded_def by (rule reachable_ok_createPitchedSamples)
qed

lemma reachable_ok_stop_each: "reachable_ok s \<Longrightarrow> reachable_ok (snd (stop_each ks s))"
proof (induction ks arbitrary: s)
  case Nil
  then show ?case by simp
next
  case (Cons k ks)
  have ok1: "reachable_ok (snd (stopNote k s))" using Cons.prems by (rule reachable_ok_stopNote)
  show ?case
  proof (cases "stopNote k s")
    case (Pair out s1)
    then show ?thesis using ok1 Cons.IH[of s1] by (cases out) simp_all
  qed
qed

lemma handlePianoClick_cases:
  "handlePianoClick x y s = (Normal, s) \<or>
   (\<exists>note. handlePianoClick x y s =
             playNote note (s\<lparr>pressedKeys := insert note (pressedKeys s)\<rparr>))"
  by (auto simp: handlePianoClick_def Let_def split: option.split)

lemma reachable_ok_step:
  assumes ok: "reachable_ok s"
  shows "reachable_ok (step s e)"
proof (cases e)
  case (KeyPressed key)
  then show ?thesis using ok by (simp add: keyPressed_def Let_def reachable_ok_playNote)
next
  case (KeyReleased key)
  then show ?thesis using ok by (simp add: keyReleased_def Let_def reachable_ok_stopNote)
next
  case (MousePressed x y)
  then show ?thesis
    using ok handlePianoClick_cases[of x y s]
    by (auto simp: mousePressed_def reachable_ok_playNote)
next
  case MouseReleased
  then show ?thesis using ok by (simp add: mouseReleased_def reachable_ok_stop_each)
next
  case (SclChosen name)
  then show ?thesis using ok by (simp add: handleSclFile_def)
next
  case (SclRead fileContent)
  then show ?thesis
    using ok
    by (simp add: onload_def Let_def initializeDefaultScale_def
          reachable_ok_createPitchedSamples split: option.split)
next
  case AudioLoaded
  then show ?thesis using ok by (simp add: reachable_ok_audio_loaded)
qed

lemma reachable_ok_foldl: "reachable_ok s \<Longrightarrow> reachable_ok (foldl step s evs)"
  by (induction evs arbitrary: s) (simp_all add: reachable_ok_step)

lemma reachable_ok_run: "reachable_ok (run evs)"
  unfolding run_def by (rule reachable_ok_foldl[OF reachable_ok_initial])

section \<open>Effects of the handlers on a state with a sound object\<close>

lemma audio_loaded_effect:
  "sound (audio_loaded s) = Some (fresh_sound s)"
  "sampleLoaded (audio_loaded s)"
  "isPlaying (audio_loaded s) = isPlaying s"
  "scaleRatios (audio_loaded s) = scaleRatios s"
  "pending i (calls (audio_loaded s)) = pending i (calls s)"
  "stops_received obj (calls (audio_loaded s)) = stops_received obj (calls s)"
  "single_voice i {} (calls (audio_loaded s)) = single_voice i {} (calls s)"
  "set (calls s) \<subseteq> set (calls (audio_loaded s))"
  using rate_calls_inert[OF pitched_calls_rates]
  by (simp_all add: audio_loaded_def createPitchedSamples_def pending_append
        single_voice_append stops_received_def)

lemma pending_Nil: "pending i [] = {}"
  by (simp add: pending_def)

lemma stops_received_Nil: "stops_received obj [] = []"
  by (simp add: stops_received_def)

lemma playNote_idle:
  assumes "sampleLoaded s" and "sound s = Some obj" and "\<not> truthy (isPlaying s) k"
  shows "playNote k s =
           (Normal, s\<lparr>calls := calls s @
                         [Call obj (Rate (calculatePitchRatio (scaleRatios s) k)) k,
                          Call obj Play k],
                      isPlaying := assign (isPlaying s) k True\<rparr>)"
  using assms by (simp add: playNote_def Let_def)


lemma stopNote_engaged:
  assumes "sound s = Some obj" and "truthy (isPlaying s) k"
  shows "stopNote k s =
           (Normal, s\<lparr>calls := calls s @ [Call obj Stop k],
                      isPlaying := assign (isPlaying s) k False\<rparr>)"
  using assms by (simp add: stopNote_def)

lemma stopNote_idle: "\<not> truthy (isPlaying s) k \<Longrightarrow> stopNote k s = (Normal, s)"
  by (simp add: stopNote_def)

lemma playNote_pressedKeys: "pressedKeys (snd (playNote k s)) = pressedKeys s"
  by (cases "sound s") (simp_all add: playNote_def stopNote_def Let_def)

lemma keyboard_lookup_a: "keyboard_lookup (toLowerCase ''a'') = Num 60"
  by (simp add: keyboard_lookup_def toLowerCase_def lower_char_def KEYBOARD_MAP_def)

lemma keyboard_lookup_q: "map_of KEYBOARD_MAP (toLowerCase ''Q'') = None"
  by code_simp

lemma keyboard_lookup_upper_a: "keyboard_lookup (toLowerCase ''A'') = Num 60"
  by code_simp

lemma key_a:
  "keyPressed ''a'' s =
     playNote (Num 60) (s\<lparr>pressedKeys := insert (Num 60) (pressedKeys s)\<rparr>)"
  "keyReleased ''a'' s =
     stopNote (Num 60) (s\<lparr>pressedKeys := pressedKeys s - {Num 60}\<rparr>)"
  by (simp_all add: keyPressed_def keyReleased_def Let_def keyboard_lookup_a)

text \<open>The run: a sample is loaded, then the key \<^verbatim>\<open>a\<close> is pressed.\<close>

lemma run_load_press:
  "sound (run [AudioLoaded, KeyPressed ''a'']) = Some 0"
  "sampleLoaded (run [AudioLoaded, KeyPressed ''a''])"
  "truthy (isPlaying (run [AudioLoaded, KeyPressed ''a''])) (Num 60)"
  "pending (Num 60) (calls (run [AudioLoaded, KeyPressed ''a''])) = {0}"
  "stops_received 0 (calls (run [AudioLoaded, KeyPressed ''a''])) = []"
  "Call 0 Play (Num 60) \<in> set (calls (run [AudioLoaded, KeyPressed ''a'']))"
proof -
  let ?s1 = "audio_loaded setup_sketch"
  let ?p1 = "?s1\<lparr>pressedKeys := insert (Num 60) (pressedKeys ?s1)\<rparr>"
  have s1: "sound ?p1 = Some 0" "sampleLoaded ?p1" "\<not> truthy (isPlaying ?p1) (Num 60)"
    "pending (Num 60) (calls ?p1) = {}" "stops_received 0 (calls ?p1) = []"
    by (simp_all add: audio_loaded_effect fresh_sound_def setup_sketch_fields truthy_def
          pending_Nil stops_received_Nil)
  have r: "run [AudioLoaded, KeyPressed ''a''] = snd (playNote (Num 60) ?p1)"
    by (simp add: run_def key_a)
  show "sound (run [AudioLoaded, KeyPressed ''a'']) = Some 0"
    "sampleLoaded (run [AudioLoaded, KeyPressed ''a''])"
    "truthy (isPlaying (run [AudioLoaded, KeyPressed ''a''])) (Num 60)"
    "pending (Num 60) (calls (run [AudioLoaded, KeyPressed ''a''])) = {0}"
    "stops_received 0 (calls (run [AudioLoaded, KeyPressed ''a''])) = []"
    "Call 0 Play (Num 60) \<in> set (calls (run [AudioLoaded, KeyPressed ''a'']))"
    unfolding r playNote_idle[OF s1(2) s1(1) s1(3)]
    using s1 by (simp_all add: truthy_assign pending_append stops_received_def)
qed




lemma run_has_sound:
  assumes "sampleLoaded (run evs) \<or> truthy (isPlaying (run evs)) i"
  shows "\<exists>obj. sound (run evs) = Some obj"
  using assms reachable_ok_run[of evs] by (auto simp: reachable_ok_def loaded_ok_def)

section \<open>The engaged set\<close>




section \<open>Triggering an engaged note again\<close>




section \<open>Releasing a note\<close>

text \<open>
  Claim C7. In every state that a run reaches, \<^verbatim>\<open>stopNote(i)\<close> returns normally, and
  a second \<^verbatim>\<open>stopNote(i)\<close> right after it returns normally and changes nothing. The
  first issues exactly one stop call when \<open>i\<close> was engaged, after which \<open>i\<close> is idle, and
  none when \<open>i\<close> was idle, where it leaves the whole state as it was.
\<close>

theorem stopNote_idempotent:
  "fst (stopNote i (run evs)) = Normal \<and>
   stopNote i (snd (stopNote i (run evs))) = (Normal, snd (stopNote i (run evs))) \<and>
   (if truthy (isPlaying (run evs)) i
    then (\<exists>obj. sound (run evs) = Some obj \<and>
            calls (snd (stopNote i (run evs))) = calls (run evs) @ [Call obj Stop i]) \<and>
         \<not> truthy (isPlaying (snd (stopNote i (run evs)))) i
    else snd (stopNote i (run evs)) = run evs)"
proof (cases "truthy (isPlaying (run evs)) i")
  case False
  then show ?thesis by (simp add: stopNote_idle)
next
  case True
  then obtain obj where obj: "sound (run evs) = Some obj"
    using run_has_sound[of evs i] by blast
  show ?thesis
    using True obj by (simp add: stopNote_engaged[OF obj True] stopNote_def truthy_assign)
qed

theorem stopNote_idempotent_witness:
  "truthy (isPlaying (run [AudioLoaded, KeyPressed ''a''])) (Num 60) \<and>
   fst (stopNote (Num 60) (run [AudioLoaded, KeyPressed ''a''])) = Normal \<and>
   stopNote (Num 60) (snd (stopNote (Num 60) (run [AudioLoaded, KeyPressed ''a''])))
     = (Normal, snd (stopNote (Num 60) (run [AudioLoaded, KeyPressed ''a'']))) \<and>
   calls (snd (stopNote (Num 60) (run [AudioLoaded, KeyPressed ''a''])))
     = calls (run [AudioLoaded, KeyPressed ''a'']) @ [Call 0 Stop (Num 60)] \<and>
   \<not> truthy (isPlaying (snd (stopNote (Num 60) (run [AudioLoaded, KeyPressed ''a''])))) (Num 60)"
  using stopNote_idempotent [of "Num 60" "[AudioLoaded, KeyPressed ''a'']"]
    run_load_press(1,3)
  by auto

section \<open>Keys outside the keyboard table\<close>

text \<open>
  Claim C10. For a key whose lower-case form is not in \<^verbatim>\<open>KEYBOARD_MAP\<close> the lookup is
  \<^verbatim>\<open>undefined\<close>, which passes the test \<^verbatim>\<open>note !== null\<close>: \<^verbatim>\<open>keyPressed\<close> adds
  \<^verbatim>\<open>undefined\<close> to \<^verbatim>\<open>pressedKeys\<close> and calls \<^verbatim>\<open>playNote(undefined)\<close>, which with a
  sample loaded sets the rate to \<^verbatim>\<open>NaN\<close>, starts the sound and marks \<^verbatim>\<open>undefined\<close> as
  playing; \<^verbatim>\<open>keyReleased\<close> removes it from the set and calls \<^verbatim>\<open>stopNote(undefined)\<close>.
\<close>

theorem unmapped_key_not_filtered:
  assumes "map_of KEYBOARD_MAP (toLowerCase key) = None"
  shows "keyboard_lookup (toLowerCase key) = Undefined \<and>
         keyPressed key s =
           playNote Undefined (s\<lparr>pressedKeys := insert Undefined (pressedKeys s)\<rparr>) \<and>
         keyReleased key s =
           stopNote Undefined (s\<lparr>pressedKeys := pressedKeys s - {Undefined}\<rparr>) \<and>
         Undefined \<in> pressedKeys (snd (keyPressed key s)) \<and>
         (sampleLoaded s \<and> sound s = Some obj \<longrightarrow>
            fst (keyPressed key s) = Normal \<and>
            truthy (isPlaying (snd (keyPressed key s))) Undefined \<and>
            (\<exists>cs. calls (snd (keyPressed key s)) =
                    cs @ [Call obj (Rate None) Undefined, Call obj Play Undefined]))"
proof -
  have l: "keyboard_lookup (toLowerCase key) = Undefined"
    using assms by (simp add: keyboard_lookup_def)
  have nan: "calculatePitchRatio rs Undefined = None" for rs
    by (simp add: calculatePitchRatio_def)
  have p: "keyPressed key s =
             playNote Undefined (s\<lparr>pressedKeys := insert Undefined (pressedKeys s)\<rparr>)"
    using l by (simp add: keyPressed_def)
  have r: "keyReleased key s =
             stopNote Undefined (s\<lparr>pressedKeys := pressedKeys s - {Undefined}\<rparr>)"
    using l by (simp add: keyReleased_def)
  have m: "Undefined \<in> pressedKeys (snd (keyPressed key s))"
    by (simp add: p playNote_pressedKeys)
  have e: "fst (keyPressed key s) = Normal \<and>
           truthy (isPlaying (snd (keyPressed key s))) Undefined \<and>
           (\<exists>cs. calls (snd (keyPressed key s)) =
                   cs @ [Call obj (Rate None) Undefined, Call obj Play Undefined])"
    if "sampleLoaded s" "sound s = Some obj"
    using that by (auto simp: p playNote_def stopNote_def Let_def truthy_assign nan)
  show ?thesis using l p r m e by blast
qed

theorem unmapped_key_not_filtered_witness:
  "map_of KEYBOARD_MAP (toLowerCase ''Q'') = None \<and>
   sampleLoaded (run [AudioLoaded]) \<and>
   sound (run [AudioLoaded]) = Some 0 \<and>
   Undefined \<in> pressedKeys (snd (keyPressed ''Q'' (run [AudioLoaded]))) \<and>
   fst (keyPressed ''Q'' (run [AudioLoaded])) = Normal \<and>
   truthy (isPlaying (snd (keyPressed ''Q'' (run [AudioLoaded])))) Undefined \<and>
   calls (snd (keyPressed ''Q'' (run [AudioLoaded]))) =
     calls (run [AudioLoaded]) @ [Call 0 (Rate None) Undefined, Call 0 Play Undefined]"
proof -
  have s: "sampleLoaded (run [AudioLoaded])" "sound (run [AudioLoaded]) = Some 0"
    by (simp_all add: run_def audio_loaded_effect fresh_sound_def setup_sketch_fields)
  have i: "\<not> truthy (isPlaying (run [AudioLoaded])) Undefined"
    by (simp add: run_def audio_loaded_effect setup_sketch_fields truthy_def)
  have c: "calls (snd (keyPressed ''Q'' (run [AudioLoaded]))) =
             calls (run [AudioLoaded]) @ [Call 0 (Rate None) Undefined, Call 0 Play Undefined]"
    using unmapped_key_not_filtered [OF keyboard_lookup_q, of "run [AudioLoaded]" 0] s i
    by (simp add: playNote_def Let_def calculatePitchRatio_def)
  show ?thesis
    using unmapped_key_not_filtered [OF keyboard_lookup_q, of "run [AudioLoaded]" 0] s c
      keyboard_lookup_q
    by blast
qed

end
